theory Spec2Isabelle
  imports Main "HOL-Library.Char_ord" "HOL-Library.List_Lexorder" "HOL-Library.Sublist"
begin

section \<open>ezbackup: snapshot rotation around an external synchronisation engine\<close>

text \<open>
  A shallow embedding of \<^verbatim>\<open>src/ezbackup.py\<close>. Python strings are \<open>string\<close>, compared
  with the lexicographic order on character codes (\<open>Char_ord\<close>, \<open>List_Lexorder\<close>), which is
  the order Python's \<^verbatim>\<open><\<close> and \<^verbatim>\<open>></\<close> use on strings. Python integers are \<open>int\<close>.
  The operating system is a state that the functions pass along: the file system, the
  working directory, the flag list (one Python list object, shared by reference) and a
  trace of the commands handed to \<^verbatim>\<open>subprocess.call\<close>. An exception is a value of type
  \<open>error\<close>; a function that can raise returns its result together with the state in which
  it stopped, because an exception does not roll the file system back.
\<close>

subsection \<open>Strings and time stamps\<close>

datatype error = ENOENT | EEXIST | ENOTDIR | EISDIR | ENOTEMPTY | EINVAL | KeyError | SMTPException

text \<open>\<^verbatim>\<open>datetime.utcnow()\<close> yields a date and a time of day down to the microsecond.\<close>

record datetime =
  year :: nat
  month :: nat
  day :: nat
  hour :: nat
  minute :: nat
  second :: nat
  microsecond :: nat

definition digit_char :: "nat \<Rightarrow> char" where
  "digit_char d = char_of (of_char CHR ''0'' + d :: nat)"

text \<open>Decimal rendering of a number, as \<^verbatim>\<open>%d\<close> prints it.\<close>

fun decimal :: "nat \<Rightarrow> string" where
  "decimal n = (if n < 10 then [digit_char n] else decimal (n div 10) @ [digit_char (n mod 10)])"

declare decimal.simps [simp del]

text \<open>\<^verbatim>\<open>%m %d %H %M %S\<close>: at least two digits, zero padded; \<^verbatim>\<open>%Y\<close>: the year in decimal.\<close>

definition pad2 :: "nat \<Rightarrow> string" where
  "pad2 n = (if n < 10 then ''0'' @ decimal n else decimal n)"

text \<open>\<^verbatim>\<open>utcnow.strftime('%Y-%m-%d__%H-%M-%S')\<close> (lines 110-111).\<close>

definition strftime :: "datetime \<Rightarrow> string" where
  "strftime t =
     decimal (year t) @ ''-'' @ pad2 (month t) @ ''-'' @ pad2 (day t) @ ''__'' @
     pad2 (hour t) @ ''-'' @ pad2 (minute t) @ ''-'' @ pad2 (second t)"

text \<open>The values a \<^verbatim>\<open>datetime\<close> can hold, with a year of four digits.\<close>

definition valid_datetime :: "datetime \<Rightarrow> bool" where
  "valid_datetime t \<longleftrightarrow>
     1000 \<le> year t \<and> year t \<le> 9999 \<and> 1 \<le> month t \<and> month t \<le> 12 \<and>
     1 \<le> day t \<and> day t \<le> 31 \<and> hour t < 24 \<and> minute t < 60 \<and> second t < 60 \<and>
     microsecond t < 1000000"

text \<open>Chronological order of two time stamps, and of their parts down to the second.\<close>

definition seconds_part :: "datetime \<Rightarrow> nat \<times> nat \<times> nat \<times> nat \<times> nat \<times> nat" where
  "seconds_part t = (year t, month t, day t, hour t, minute t, second t)"

fun earlier6 :: "nat \<times> nat \<times> nat \<times> nat \<times> nat \<times> nat \<Rightarrow> nat \<times> nat \<times> nat \<times> nat \<times> nat \<times> nat \<Rightarrow> bool" where
  "earlier6 (a1, b1, c1, d1, e1, f1) (a2, b2, c2, d2, e2, f2) \<longleftrightarrow>
     a1 < a2 \<or> a1 = a2 \<and> (b1 < b2 \<or> b1 = b2 \<and> (c1 < c2 \<or> c1 = c2 \<and>
       (d1 < d2 \<or> d1 = d2 \<and> (e1 < e2 \<or> e1 = e2 \<and> f1 < f2))))"

definition earlier :: "datetime \<Rightarrow> datetime \<Rightarrow> bool" where
  "earlier t1 t2 \<longleftrightarrow>
     earlier6 (seconds_part t1) (seconds_part t2) \<or>
     seconds_part t1 = seconds_part t2 \<and> microsecond t1 < microsecond t2"

subsection \<open>Retention statistics\<close>

text \<open>
  The loop of \<^verbatim>\<open>backup_stats\<close> (lines 64-72) over the listing, with the three local
  variables as the accumulator.
\<close>

fun backup_stats_loop :: "string list \<Rightarrow> int \<times> string \<times> string \<Rightarrow> int \<times> string \<times> string" where
  "backup_stats_loop [] (count, newest, oldest) = (count, newest, oldest)"
| "backup_stats_loop (dir # dirs) (count, newest, oldest) =
     (if dir \<in> set [''incomplete'', ''current''] then backup_stats_loop dirs (count, newest, oldest)
      else backup_stats_loop dirs
             (count + 1, if dir > newest then dir else newest, if dir < oldest then dir else oldest))"

text \<open>Lines 61-63 and 73: the initial values and the returned triple.\<close>

definition backup_stats_of :: "string list \<Rightarrow> int \<times> string \<times> string" where
  "backup_stats_of dirs = backup_stats_loop dirs (0, '''', ''Z'')"

text \<open>The entries of a listing that count as snapshots.\<close>

definition snapshots :: "string list \<Rightarrow> string list" where
  "snapshots dirs = filter (\<lambda>d. d \<noteq> ''incomplete'' \<and> d \<noteq> ''current'') dirs"

subsection \<open>Paths\<close>

text \<open>
  A path string is split at \<^verbatim>\<open>/\<close>; empty components and \<^verbatim>\<open>.\<close> are skipped and
  \<^verbatim>\<open>..\<close> steps to the parent. A resolved path is the list of names from the root.
  Symbolic links in directory position are not followed: the program creates only the
  link \<^verbatim>\<open>current\<close>, and never walks through it.
\<close>

type_synonym path = "string list"

fun split_slash :: "string \<Rightarrow> string list" where
  "split_slash [] = [[]]"
| "split_slash (c # cs) =
     (if c = CHR ''/'' then [] # split_slash cs
      else (c # hd (split_slash cs)) # tl (split_slash cs))"

definition walk :: "path \<Rightarrow> string \<Rightarrow> path" where
  "walk p c = (if c = [] \<or> c = ''.'' then p else if c = ''..'' then butlast p else p @ [c])"

definition resolve :: "path \<Rightarrow> string \<Rightarrow> path" where
  "resolve cwd s = foldl walk (if s \<noteq> [] \<and> hd s = CHR ''/'' then [] else cwd) (split_slash s)"

text \<open>A name as a directory listing returns it.\<close>

definition plain :: "string \<Rightarrow> bool" where
  "plain n \<longleftrightarrow> n \<noteq> [] \<and> CHR ''/'' \<notin> set n \<and> n \<noteq> ''.'' \<and> n \<noteq> ''..''"

subsection \<open>The file system\<close>

text \<open>
  The file system is an association list from resolved paths to nodes, read through
  \<open>map_of\<close>; the root is always a directory. Only the entries that the program
  itself creates, lists, moves or deletes matter: the files that the synchronisation
  engine writes inside the staging directory are not represented, they move with it.
  Each operation is the POSIX call behind the Python function of the same name, with
  the \<^verbatim>\<open>OSError\<close> it raises as \<open>Inl\<close>.
\<close>

datatype node = Dir | File | Symlink string

type_synonym filesystem = "(path \<times> node) list"

definition lookup :: "filesystem \<Rightarrow> path \<Rightarrow> node option" where
  "lookup fs p = (if p = [] then Some Dir else map_of fs p)"

definition entries :: "filesystem \<Rightarrow> path \<Rightarrow> string list" where
  "entries fs d = remdups (map (\<lambda>(q, n). last q) (filter (\<lambda>(q, n). q \<noteq> [] \<and> butlast q = d) fs))"

definition os_listdir :: "filesystem \<Rightarrow> path \<Rightarrow> error + string list" where
  "os_listdir fs d =
     (case lookup fs d of
        None \<Rightarrow> Inl ENOENT
      | Some Dir \<Rightarrow> Inr (entries fs d)
      | Some _ \<Rightarrow> Inl ENOTDIR)"

definition os_mkdir :: "filesystem \<Rightarrow> path \<Rightarrow> error + filesystem" where
  "os_mkdir fs p =
     (case lookup fs p of
        Some _ \<Rightarrow> Inl EEXIST
      | None \<Rightarrow>
         (case lookup fs (butlast p) of
            None \<Rightarrow> Inl ENOENT
          | Some Dir \<Rightarrow> Inr ((p, Dir) # fs)
          | Some _ \<Rightarrow> Inl ENOTDIR))"

text \<open>
  \<^verbatim>\<open>os.makedirs\<close>: create the parent first when it is missing, ignoring that someone
  else created it meanwhile, then the directory itself. The file system comes back also
  when the call raises, since the parents made so far stay.
\<close>

function os_makedirs :: "filesystem \<Rightarrow> path \<Rightarrow> error option \<times> filesystem" where
  "os_makedirs fs p =
     (if p \<noteq> [] \<and> lookup fs (butlast p) = None then
        (case os_makedirs fs (butlast p) of
           (Some e, fs') \<Rightarrow>
             (if e \<noteq> EEXIST then (Some e, fs')
              else (case os_mkdir fs' p of Inl e' \<Rightarrow> (Some e', fs') | Inr fs'' \<Rightarrow> (None, fs'')))
         | (None, fs') \<Rightarrow>
             (case os_mkdir fs' p of Inl e' \<Rightarrow> (Some e', fs') | Inr fs'' \<Rightarrow> (None, fs'')))
      else (case os_mkdir fs p of Inl e' \<Rightarrow> (Some e', fs) | Inr fs'' \<Rightarrow> (None, fs'')))"
  by pat_completeness auto
termination
  by (relation "measure (\<lambda>(fs, p). length p)") auto

declare os_makedirs.simps [simp del]

text \<open>Lines 31-37: \<^verbatim>\<open>mkdir -p\<close>.\<close>

definition mkdir_p :: "filesystem \<Rightarrow> path \<Rightarrow> error option \<times> filesystem" where
  "mkdir_p fs p =
     (case os_makedirs fs p of
        (None, fs') \<Rightarrow> (None, fs')
      | (Some exc, fs') \<Rightarrow>
          (if exc = EEXIST \<and> lookup fs' p = Some Dir then (None, fs') else (Some exc, fs')))"

text \<open>
  \<^verbatim>\<open>os.rename\<close>: the source must exist, the parent of the destination must be a
  directory, a directory does not move below itself, and an existing destination is
  replaced only by a node of its kind and, when a directory, only when empty.
\<close>

definition nonempty_dir :: "filesystem \<Rightarrow> path \<Rightarrow> bool" where
  "nonempty_dir fs d \<longleftrightarrow> list_ex (\<lambda>(q, n). strict_prefix d q) fs"

definition move_tree :: "filesystem \<Rightarrow> path \<Rightarrow> path \<Rightarrow> filesystem" where
  "move_tree fs src dst =
     map (\<lambda>(q, n). (dst @ drop (length src) q, n)) (filter (\<lambda>(q, n). prefix src q) fs) @
     filter (\<lambda>(q, n). \<not> prefix src q \<and> \<not> prefix dst q) fs"

definition os_rename :: "filesystem \<Rightarrow> path \<Rightarrow> path \<Rightarrow> error + filesystem" where
  "os_rename fs src dst =
     (case lookup fs src of
        None \<Rightarrow> Inl ENOENT
      | Some kind \<Rightarrow>
         (case lookup fs (butlast dst) of
            None \<Rightarrow> Inl ENOENT
          | Some File \<Rightarrow> Inl ENOTDIR
          | Some (Symlink l) \<Rightarrow> Inl ENOTDIR
          | Some Dir \<Rightarrow>
             if src = [] \<or> dst = [] then Inl EINVAL
             else if src = dst then Inr fs
             else if strict_prefix src dst then Inl EINVAL
             else if nonempty_dir fs dst then Inl ENOTEMPTY
             else (case lookup fs dst of
                     None \<Rightarrow> Inr (move_tree fs src dst)
                   | Some Dir \<Rightarrow> if kind = Dir then Inr (move_tree fs src dst) else Inl EISDIR
                   | Some _ \<Rightarrow> if kind = Dir then Inl ENOTDIR else Inr (move_tree fs src dst))))"

text \<open>\<^verbatim>\<open>os.remove\<close> unlinks a file or a symbolic link, never a directory.\<close>

definition os_remove :: "filesystem \<Rightarrow> path \<Rightarrow> error + filesystem" where
  "os_remove fs p =
     (case lookup fs p of
        None \<Rightarrow> Inl ENOENT
      | Some Dir \<Rightarrow> Inl EISDIR
      | Some _ \<Rightarrow> Inr (filter (\<lambda>(q, n). q \<noteq> p) fs))"

text \<open>\<^verbatim>\<open>os.symlink(src, dst)\<close> creates the link \<open>dst\<close> with the text \<open>src\<close>.\<close>

definition os_symlink :: "filesystem \<Rightarrow> string \<Rightarrow> path \<Rightarrow> error + filesystem" where
  "os_symlink fs src dst =
     (case lookup fs dst of
        Some _ \<Rightarrow> Inl EEXIST
      | None \<Rightarrow>
         (case lookup fs (butlast dst) of
            None \<Rightarrow> Inl ENOENT
          | Some Dir \<Rightarrow> Inr ((dst, Symlink src) # fs)
          | Some _ \<Rightarrow> Inl ENOTDIR))"

text \<open>\<^verbatim>\<open>os.chdir\<close> needs a directory.\<close>

definition os_chdir :: "filesystem \<Rightarrow> path \<Rightarrow> error + path" where
  "os_chdir fs p =
     (case lookup fs p of
        None \<Rightarrow> Inl ENOENT
      | Some Dir \<Rightarrow> Inr p
      | Some _ \<Rightarrow> Inl ENOTDIR)"

text \<open>\<^verbatim>\<open>shutil.rmtree\<close> deletes a directory and all below it.\<close>

definition shutil_rmtree :: "filesystem \<Rightarrow> path \<Rightarrow> error + filesystem" where
  "shutil_rmtree fs p =
     (case lookup fs p of
        None \<Rightarrow> Inl ENOENT
      | Some Dir \<Rightarrow> if p = [] then Inl EINVAL else Inr (filter (\<lambda>(q, n). \<not> prefix p q) fs)
      | Some _ \<Rightarrow> Inl ENOTDIR)"

subsection \<open>Configuration, arguments and program state\<close>

text \<open>
  The configuration is the JSON object of \<^verbatim>\<open>config.json\<close>, the arguments are what
  \<^verbatim>\<open>parse_args\<close> returns. A key that the program reads with \<^verbatim>\<open>get\<close> or tests with
  \<^verbatim>\<open>in\<close> is an option.
\<close>

record profile =
  username :: string
  hostname :: string
  dirs :: "string list"
  excludes :: "string list option"

record login =
  user :: string
  password :: string
  server :: string
  port :: "int option"

record config =
  backup_path :: string
  backup_count :: int
  config_excludes :: "string list option"
  config_email :: "login option"
  profiles :: "profile list"

record args =
  arg_username :: "string option"
  arg_email :: "string option"
  dry :: bool
  verbose :: bool

text \<open>
  \<open>flags\<close> is the one list object that \<^verbatim>\<open>__main__\<close> builds and every call of
  \<^verbatim>\<open>run_rsync\<close> receives and extends in place (\<^verbatim>\<open>flags += ...\<close>); \<open>calls\<close> records each
  command given to \<^verbatim>\<open>subprocess.call\<close>, \<open>mails\<close> each recipient and subject given to
  \<^verbatim>\<open>send_email\<close>.
\<close>

record state =
  fs :: filesystem
  cwd :: path
  flags :: "string list"
  calls :: "string list list"
  mails :: "(string \<times> string) list"

text \<open>Lines 17-28.\<close>

definition rsync_flags :: "string list" where
  "rsync_flags = [''--archive'', ''--one-file-system'', ''--hard-links'', ''--human-readable'',
                  ''--inplace'', ''--numeric-ids'', ''--delete'', ''--delete-excluded'']"

definition rsync_flags_verbose :: "string list" where
  "rsync_flags_verbose = [''--verbose'', ''--progress'', ''--itemize-changes'']"

text \<open>\<^verbatim>\<open>'--exclude="%s"' % e\<close>.\<close>

definition exclude_flag :: "string \<Rightarrow> string" where
  "exclude_flag e = ''--exclude='' @ [CHR 0x22] @ e @ [CHR 0x22]"

text \<open>\<^verbatim>\<open>'--link-dest=%s/%s' % (base_dir, newest_backup)\<close>: the baseline path and its flag.\<close>

definition link_dest :: "string \<Rightarrow> string \<Rightarrow> string" where
  "link_dest base_dir newest_backup = base_dir @ ''/'' @ newest_backup"

definition link_dest_flag :: "string \<Rightarrow> string \<Rightarrow> string" where
  "link_dest_flag base_dir newest_backup = ''--link-dest='' @ link_dest base_dir newest_backup"

subsection \<open>\<^verbatim>\<open>backup_stats\<close> and \<^verbatim>\<open>run_rsync\<close>\<close>

text \<open>Lines 58-73.\<close>

definition backup_stats :: "filesystem \<Rightarrow> path \<Rightarrow> string \<Rightarrow> error + int \<times> string \<times> string" where
  "backup_stats f wd base_dir =
     (case os_listdir f (resolve wd base_dir) of
        Inl e \<Rightarrow> Inl e
      | Inr listing \<Rightarrow> Inr (backup_stats_of listing))"

text \<open>Lines 76-78 and 80-85.\<close>

definition source_of :: "profile \<Rightarrow> string \<Rightarrow> string" where
  "source_of profile path = username profile @ ''@'' @ hostname profile @ '':'' @ path"

definition replace_slash :: "string \<Rightarrow> string" where
  "replace_slash path = map (\<lambda>c. if c = CHR ''/'' then CHR ''_'' else c) path"

definition base_dir_of :: "config \<Rightarrow> profile \<Rightarrow> string \<Rightarrow> string" where
  "base_dir_of config profile path =
     backup_path config @ username profile @ ''/'' @ hostname profile @ ''/'' @
     replace_slash path @ ''/''"

definition target_of :: "config \<Rightarrow> profile \<Rightarrow> string \<Rightarrow> string" where
  "target_of config profile path = base_dir_of config profile path @ ''incomplete'' @ ''/''"

text \<open>Lines 115-118: \<^verbatim>\<open>try: os.remove('current') except: pass\<close>.\<close>

definition remove_current :: "filesystem \<Rightarrow> path \<Rightarrow> filesystem" where
  "remove_current f wd =
     (case os_remove f (resolve wd ''current'') of Inl e \<Rightarrow> f | Inr f' \<Rightarrow> f')"

text \<open>Lines 122-124: the oldest backup moves to the junk directory when the count has reached the cap.\<close>

definition junk_path_of :: "config \<Rightarrow> string \<Rightarrow> string" where
  "junk_path_of config oldest_backup = backup_path config @ ''junk/'' @ oldest_backup"

definition purge_oldest :: "config \<Rightarrow> int \<Rightarrow> string \<Rightarrow> filesystem \<Rightarrow> path \<Rightarrow> error + filesystem" where
  "purge_oldest config count oldest_backup f wd =
     (if count \<ge> backup_count config
      then os_rename f (resolve wd oldest_backup) (resolve wd (junk_path_of config oldest_backup))
      else Inr f)"

text \<open>
  Lines 107-126, the branch \<^verbatim>\<open>returncode == 0\<close>. No exception is caught but that of
  \<^verbatim>\<open>os.remove\<close>, so a call that raises ends the function in the state reached, the
  working directory still at the store.
\<close>

definition promote :: "config \<Rightarrow> string \<Rightarrow> int \<Rightarrow> string \<Rightarrow> datetime \<Rightarrow> state \<Rightarrow> error option \<times> state" where
  "promote config base_dir count oldest_backup utcnow st =
     (case os_chdir (fs st) (resolve (cwd st) base_dir) of
        Inl e \<Rightarrow> (Some e, st)
      | Inr wd \<Rightarrow>
         (let timestr = strftime utcnow in
          case os_rename (fs st) (resolve wd ''incomplete'') (resolve wd timestr) of
            Inl e \<Rightarrow> (Some e, st\<lparr>cwd := wd\<rparr>)
          | Inr f1 \<Rightarrow>
             (let f2 = remove_current f1 wd in
              case os_symlink f2 timestr (resolve wd ''current'') of
                Inl e \<Rightarrow> (Some e, st\<lparr>fs := f2, cwd := wd\<rparr>)
              | Inr f3 \<Rightarrow>
                 (case purge_oldest config count oldest_backup f3 wd of
                    Inl e \<Rightarrow> (Some e, st\<lparr>fs := f3, cwd := wd\<rparr>)
                  | Inr f4 \<Rightarrow>
                     (case os_chdir f4 (cwd st) of
                        Inl e \<Rightarrow> (Some e, st\<lparr>fs := f4, cwd := wd\<rparr>)
                      | Inr wd' \<Rightarrow> (None, st\<lparr>fs := f4, cwd := wd'\<rparr>))))))"

text \<open>
  Lines 75-129. The exit status of the engine and the clock are inputs: \<open>returncode\<close> is
  what \<^verbatim>\<open>subprocess.call\<close> returns for this command and \<open>utcnow\<close> what
  \<^verbatim>\<open>datetime.utcnow()\<close> returns afterwards. Logging is left out.
\<close>

definition run_rsync :: "config \<Rightarrow> profile \<Rightarrow> string \<Rightarrow> int \<times> datetime \<Rightarrow> state \<Rightarrow> (error + bool) \<times> state" where
  "run_rsync config profile path outcome st =
     (let source = source_of profile path;
          base_dir = base_dir_of config profile path;
          target = target_of config profile path
      in case mkdir_p (fs st) (resolve (cwd st) target) of
           (Some e, f1) \<Rightarrow> (Inl e, st\<lparr>fs := f1\<rparr>)
         | (None, f1) \<Rightarrow>
            (let flags1 = flags st @ map exclude_flag (case excludes profile of None \<Rightarrow> [] | Some es \<Rightarrow> es)
             in case backup_stats f1 (cwd st) base_dir of
                  Inl e \<Rightarrow> (Inl e, st\<lparr>fs := f1, flags := flags1\<rparr>)
                | Inr (count, newest_backup, oldest_backup) \<Rightarrow>
                   (let flags2 = flags1 @ [link_dest_flag base_dir newest_backup];
                        command = [''rsync''] @ flags2 @ [source, target];
                        returncode = fst outcome;
                        st2 = st\<lparr>fs := f1, flags := flags2, calls := calls st @ [command]\<rparr>
                    in if returncode = 0
                       then (case promote config base_dir count oldest_backup (snd outcome) st2 of
                               (Some e, st3) \<Rightarrow> (Inl e, st3)
                             | (None, st3) \<Rightarrow> (Inr True, st3))
                       else (Inr False, st2))))"

subsection \<open>\<^verbatim>\<open>__main__\<close>\<close>

text \<open>Lines 146-152.\<close>

definition build_flags :: "config \<Rightarrow> args \<Rightarrow> string list" where
  "build_flags config a =
     rsync_flags @
     (case config_excludes config of None \<Rightarrow> [] | Some es \<Rightarrow> map exclude_flag es) @
     (if verbose a then rsync_flags_verbose else []) @
     (if dry a then [''-n''] else [])"

text \<open>
  Lines 163-165. \<open>engine\<close> gives the outcome (exit status and clock) of the i-th engine
  run of the whole program; an exception leaves both loops.
\<close>

fun run_dirs :: "config \<Rightarrow> profile \<Rightarrow> string list \<Rightarrow> (nat \<Rightarrow> int \<times> datetime) \<Rightarrow> bool \<Rightarrow> state \<Rightarrow> (error + bool) \<times> state" where
  "run_dirs config profile [] engine success st = (Inr success, st)"
| "run_dirs config profile (path # paths) engine success st =
     (case run_rsync config profile path (engine (length (calls st))) st of
        (Inl e, st') \<Rightarrow> (Inl e, st')
      | (Inr ok, st') \<Rightarrow> run_dirs config profile paths engine (ok \<and> success) st')"

fun run_profiles :: "config \<Rightarrow> profile list \<Rightarrow> (nat \<Rightarrow> int \<times> datetime) \<Rightarrow> bool \<Rightarrow> state \<Rightarrow> (error + bool) \<times> state" where
  "run_profiles config [] engine success st = (Inr success, st)"
| "run_profiles config (profile # ps) engine success st =
     (case run_dirs config profile (dirs profile) engine success st of
        (Inl e, st') \<Rightarrow> (Inl e, st')
      | (Inr success', st') \<Rightarrow> run_profiles config ps engine success' st')"

text \<open>
  Lines 167-172. \<open>smtp\<close> is the mail server: what sending to a recipient with a subject
  raises, if anything. \<^verbatim>\<open>config['email']\<close> raises \<^verbatim>\<open>KeyError\<close> when the key is missing.
\<close>

definition subject_of :: "bool \<Rightarrow> string" where
  "subject_of success = (if success then ''[OK]'' else ''[FAIL]'') @ '' ezbackup complete.''"

definition notify :: "config \<Rightarrow> args \<Rightarrow> (login \<Rightarrow> string \<Rightarrow> string \<Rightarrow> error option) \<Rightarrow> bool \<Rightarrow> state \<Rightarrow> error option \<times> state" where
  "notify config a smtp success st =
     (case arg_email a of
        None \<Rightarrow> (None, st)
      | Some to \<Rightarrow>
         (case config_email config of
            None \<Rightarrow> (Some KeyError, st)
          | Some lg \<Rightarrow>
             (smtp lg to (subject_of success), st\<lparr>mails := mails st @ [(to, subject_of success)]\<rparr>)))"

text \<open>
  Lines 143-175, from the flag list on, started in file system \<open>f0\<close> and working
  directory \<open>wd\<close>. The value is the variable \<^verbatim>\<open>success\<close>, the result of the run.
\<close>

definition junk_dir_of :: "config \<Rightarrow> string" where
  "junk_dir_of config = backup_path config @ ''junk''"

definition main :: "config \<Rightarrow> args \<Rightarrow> (nat \<Rightarrow> int \<times> datetime) \<Rightarrow> (login \<Rightarrow> string \<Rightarrow> string \<Rightarrow> error option) \<Rightarrow> filesystem \<Rightarrow> path \<Rightarrow> (error + bool) \<times> state" where
  "main config a engine smtp f0 wd =
     (let st0 = \<lparr>fs = f0, cwd = wd, flags = build_flags config a, calls = [], mails = []\<rparr>;
          junkDirPath = junk_dir_of config
      in case mkdir_p f0 (resolve wd junkDirPath) of
           (Some e, f1) \<Rightarrow> (Inl e, st0\<lparr>fs := f1\<rparr>)
         | (None, f1) \<Rightarrow>
            (case run_profiles config (profiles config) engine True (st0\<lparr>fs := f1\<rparr>) of
               (Inl e, st1) \<Rightarrow> (Inl e, st1)
             | (Inr success, st1) \<Rightarrow>
                (case notify config a smtp success st1 of
                   (Some e, st2) \<Rightarrow> (Inl e, st2)
                 | (None, st2) \<Rightarrow>
                    (case shutil_rmtree (fs st2) (resolve (cwd st2) junkDirPath) of
                       Inl e \<Rightarrow> (Inl e, st2)
                     | Inr f3 \<Rightarrow> (Inr success, st2\<lparr>fs := f3\<rparr>)))))"

subsection \<open>Time stamps order as the times they print\<close>

lemma of_char_digit_char: "d < 10 \<Longrightarrow> of_char (digit_char d) = 48 + d"
  by (simp add: digit_char_def)

lemma digit_char_less: "a < 10 \<Longrightarrow> b < 10 \<Longrightarrow> digit_char a < digit_char b \<longleftrightarrow> a < b"
  by (simp add: less_char_def of_char_digit_char)

lemma digit_char_eq: "a < 10 \<Longrightarrow> b < 10 \<Longrightarrow> digit_char a = digit_char b \<longleftrightarrow> a = b"
proof
  assume h: "a < 10" "b < 10" "digit_char a = digit_char b"
  have "48 + a = (of_char (digit_char a) :: nat)" using h(1) by (simp only: of_char_digit_char)
  also have "\<dots> = of_char (digit_char b)" by (simp only: h(3))
  also have "\<dots> = 48 + b" using h(2) by (simp only: of_char_digit_char)
  finally show "a = b" by simp
qed simp

lemma append_less_same_length:
  "length xs = length xs' \<Longrightarrow> (xs @ ys < xs' @ ys') \<longleftrightarrow> (xs < xs' \<or> xs = xs' \<and> ys < (ys' :: 'a::linorder list))"
  by (induction xs xs' rule: list_induct2) auto

lemma decimal_small: "n < 10 \<Longrightarrow> decimal n = [digit_char n]"
  by (simp add: decimal.simps[of n])

lemma decimal_large: "10 \<le> n \<Longrightarrow> decimal n = decimal (n div 10) @ [digit_char (n mod 10)]"
  by (simp add: decimal.simps[of n])

lemma digit_char_0: "digit_char 0 = CHR ''0''"
  by (simp only: digit_char_def add_0_right char_of_char)

lemma decimal_not_Nil: "decimal n \<noteq> []"
  by (cases "n < 10") (simp_all add: decimal_small decimal_large)

lemma length_decimal_one: "length (decimal n) = 1 \<Longrightarrow> n < 10"
  by (cases "n < 10") (simp_all add: decimal_large decimal_not_Nil)

lemma base10_aux:
  fixes qa ra qb rb :: nat
  assumes "ra < 10" "rb < 10"
  shows "10 * qa + ra < 10 * qb + rb \<longleftrightarrow> qa < qb \<or> qa = qb \<and> ra < rb"
  using assms by linarith

lemma base10_less: "(a::nat) < b \<longleftrightarrow> a div 10 < b div 10 \<or> a div 10 = b div 10 \<and> a mod 10 < b mod 10"
proof -
  have "a < b \<longleftrightarrow> 10 * (a div 10) + a mod 10 < 10 * (b div 10) + b mod 10" by simp
  also have "\<dots> \<longleftrightarrow> a div 10 < b div 10 \<or> a div 10 = b div 10 \<and> a mod 10 < b mod 10"
    by (rule base10_aux) simp_all
  finally show ?thesis .
qed

lemma base10_eq: "a div 10 = b div 10 \<Longrightarrow> a mod 10 = b mod 10 \<Longrightarrow> (a::nat) = b"
proof -
  assume h: "a div 10 = b div 10" "a mod 10 = b mod 10"
  have "a = 10 * (a div 10) + a mod 10" by simp
  also have "\<dots> = 10 * (b div 10) + b mod 10" by (simp only: h)
  also have "\<dots> = b" by simp
  finally show ?thesis .
qed

lemma length_decimal4: "1000 \<le> n \<Longrightarrow> n \<le> 9999 \<Longrightarrow> length (decimal n) = 4"
proof -
  assume h: "1000 \<le> n" "n \<le> 9999"
  have a: "10 \<le> n" "10 \<le> n div 10" "10 \<le> n div 10 div 10" "n div 10 div 10 div 10 < 10"
    using h by simp_all
  show ?thesis
    by (simp add: decimal_large[OF a(1)] decimal_large[OF a(2)] decimal_large[OF a(3)] decimal_small[OF a(4)])
qed

lemma length_pad2: "n < 100 \<Longrightarrow> length (pad2 n) = 2"
proof -
  assume h: "n < 100"
  show ?thesis
  proof (cases "n < 10")
    case True then show ?thesis by (simp add: pad2_def decimal_small)
  next
    case False
    then have "10 \<le> n" "n div 10 < 10" using h by simp_all
    then show ?thesis by (simp add: pad2_def decimal_large decimal_small)
  qed
qed

lemma decimal_inj: "decimal a = decimal b \<Longrightarrow> a = b"
proof (induction a arbitrary: b rule: decimal.induct)
  case (1 a)
  show ?case
  proof (cases "a < 10")
    case True
    then have "decimal a = [digit_char a]" by (rule decimal_small)
    then have "length (decimal b) = 1" using 1(2) by simp
    then have "b < 10" by (rule length_decimal_one)
    then show ?thesis using True 1(2) by (simp add: decimal_small digit_char_eq)
  next
    case False
    then have la: "10 \<le> a" by simp
    have "10 \<le> b"
    proof (rule ccontr)
      assume "\<not> 10 \<le> b"
      then have "length (decimal b) = 1" by (simp add: decimal_small)
      moreover have "length (decimal a) = length (decimal (a div 10)) + 1"
        by (simp add: decimal_large[OF la])
      moreover have "0 < length (decimal (a div 10))"
        using decimal_not_Nil[of "a div 10"] by simp
      ultimately show False using 1(2) by simp
    qed
    then have e: "decimal (a div 10) = decimal (b div 10)" "digit_char (a mod 10) = digit_char (b mod 10)"
      using 1(2) la by (simp_all add: decimal_large)
    from 1(1)[OF False e(1)] have "a div 10 = b div 10" .
    moreover from e(2) have "a mod 10 = b mod 10" by (simp add: digit_char_eq)
    ultimately show ?thesis by (rule base10_eq)
  qed
qed

lemma decimal_less:
  "length (decimal a) = length (decimal b) \<Longrightarrow> decimal a < decimal b \<longleftrightarrow> a < b"
proof (induction a arbitrary: b rule: decimal.induct)
  case (1 a)
  show ?case
  proof (cases "a < 10")
    case True
    then have "length (decimal b) = 1" using 1(2) by (simp add: decimal_small)
    then have "b < 10" by (rule length_decimal_one)
    then show ?thesis using True by (simp add: decimal_small digit_char_less)
  next
    case False
    then have la: "10 \<le> a" by simp
    have lb: "10 \<le> b"
    proof (rule ccontr)
      assume "\<not> 10 \<le> b"
      then have "length (decimal b) = 1" by (simp add: decimal_small)
      moreover have "length (decimal a) = length (decimal (a div 10)) + 1"
        by (simp add: decimal_large[OF la])
      moreover have "0 < length (decimal (a div 10))"
        using decimal_not_Nil[of "a div 10"] by simp
      ultimately show False using 1(2) by simp
    qed
    have len: "length (decimal (a div 10)) = length (decimal (b div 10))"
      using 1(2) la lb by (simp add: decimal_large)
    have "decimal a < decimal b \<longleftrightarrow>
       decimal (a div 10) < decimal (b div 10) \<or> decimal (a div 10) = decimal (b div 10) \<and> a mod 10 < b mod 10"
      by (simp add: decimal_large[OF la] decimal_large[OF lb] append_less_same_length[OF len] digit_char_less)
    also have "\<dots> \<longleftrightarrow> a div 10 < b div 10 \<or> a div 10 = b div 10 \<and> a mod 10 < b mod 10"
      using 1(1)[OF False len] decimal_inj[of "a div 10" "b div 10"] by auto
    also have "\<dots> \<longleftrightarrow> a < b" by (rule base10_less[symmetric])
    finally show ?thesis .
  qed
qed

lemma pad2_less: "a < 100 \<Longrightarrow> b < 100 \<Longrightarrow> pad2 a < pad2 b \<longleftrightarrow> a < b"
proof -
  assume h: "a < 100" "b < 100"
  have z: "\<And>n. n < 10 \<Longrightarrow> pad2 n = [digit_char 0, digit_char n]"
    by (simp add: pad2_def decimal_small digit_char_0)
  have l: "\<And>n. 10 \<le> n \<Longrightarrow> n < 100 \<Longrightarrow> pad2 n = [digit_char (n div 10), digit_char (n mod 10)]"
    by (simp add: pad2_def decimal_small decimal_large)
  have g: "\<And>n. n < 100 \<Longrightarrow> pad2 n = [digit_char (n div 10), digit_char (n mod 10)]"
    subgoal for n by (cases "n < 10") (simp_all add: z l)
    done
  have "pad2 a < pad2 b \<longleftrightarrow> a div 10 < b div 10 \<or> a div 10 = b div 10 \<and> a mod 10 < b mod 10"
    using h by (simp add: g digit_char_less digit_char_eq)
  then show ?thesis by (simp only: base10_less[of a b])
qed

lemma pad2_inj: "a < 100 \<Longrightarrow> b < 100 \<Longrightarrow> pad2 a = pad2 b \<Longrightarrow> a = b"
proof (rule ccontr)
  assume h: "a < 100" "b < 100" "pad2 a = pad2 b" "a \<noteq> b"
  then consider "a < b" | "b < a" by linarith
  then show False
  proof cases
    case 1 then have "pad2 a < pad2 b" using pad2_less[OF h(1) h(2)] by simp
    then show False using h(3) by simp
  next
    case 2 then have "pad2 b < pad2 a" using pad2_less[OF h(2) h(1)] by simp
    then show False using h(3) by simp
  qed
qed


lemma pad2_eq_iff: "a < 100 \<Longrightarrow> b < 100 \<Longrightarrow> pad2 a = pad2 b \<longleftrightarrow> a = b"
  using pad2_inj by blast

lemma decimal4_less: "1000 \<le> a \<Longrightarrow> a \<le> 9999 \<Longrightarrow> 1000 \<le> b \<Longrightarrow> b \<le> 9999 \<Longrightarrow>
  decimal a < decimal b \<longleftrightarrow> a < b"
  by (rule decimal_less) (simp add: length_decimal4)

lemma decimal_eq_iff: "decimal a = decimal b \<longleftrightarrow> a = b"
  using decimal_inj by blast

lemma pad2_append_less:
  "a < 100 \<Longrightarrow> b < 100 \<Longrightarrow> pad2 a @ r < pad2 b @ r' \<longleftrightarrow> a < b \<or> a = b \<and> r < r'"
  by (simp add: append_less_same_length length_pad2 pad2_less pad2_eq_iff)

lemma decimal4_append_less:
  "1000 \<le> a \<Longrightarrow> a \<le> 9999 \<Longrightarrow> 1000 \<le> b \<Longrightarrow> b \<le> 9999 \<Longrightarrow>
   decimal a @ r < decimal b @ r' \<longleftrightarrow> a < b \<or> a = b \<and> r < r'"
  by (simp add: append_less_same_length length_decimal4 decimal4_less decimal_eq_iff)

lemma strftime_less_iff:
  assumes "valid_datetime t1" "valid_datetime t2"
  shows "strftime t1 < strftime t2 \<longleftrightarrow> earlier6 (seconds_part t1) (seconds_part t2)"
proof -
  have b1: "month t1 < 100" "day t1 < 100" "hour t1 < 100" "minute t1 < 100" "second t1 < 100"
    and y1: "1000 \<le> year t1" "year t1 \<le> 9999"
    using assms(1) by (simp_all add: valid_datetime_def)
  have b2: "month t2 < 100" "day t2 < 100" "hour t2 < 100" "minute t2 < 100" "second t2 < 100"
    and y2: "1000 \<le> year t2" "year t2 \<le> 9999"
    using assms(2) by (simp_all add: valid_datetime_def)
  have last: "pad2 (second t1) < pad2 (second t2) \<longleftrightarrow> second t1 < second t2"
    using b1 b2 by (simp add: pad2_less)
  show ?thesis
    unfolding strftime_def seconds_part_def earlier6.simps
    by (simp only: decimal4_append_less[OF y1 y2] pad2_append_less b1 b2 last
        append_Cons append_Nil Cons_less_Cons simp_thms less_irrefl)
qed

lemma strftime_eq_iff:
  assumes "valid_datetime t1" "valid_datetime t2"
  shows "strftime t1 = strftime t2 \<longleftrightarrow> seconds_part t1 = seconds_part t2"
proof
  assume e: "strftime t1 = strftime t2"
  have "\<not> earlier6 (seconds_part t1) (seconds_part t2)" "\<not> earlier6 (seconds_part t2) (seconds_part t1)"
    using e strftime_less_iff[OF assms] strftime_less_iff[OF assms(2) assms(1)] by simp_all
  then show "seconds_part t1 = seconds_part t2"
    by (auto simp add: seconds_part_def)
next
  assume "seconds_part t1 = seconds_part t2"
  then show "strftime t1 = strftime t2" by (simp add: seconds_part_def strftime_def)
qed

subsection \<open>What the statistics loop computes\<close>

lemma backup_stats_loop_skip:
  "set listing \<subseteq> {''incomplete'', ''current''} \<Longrightarrow> backup_stats_loop listing acc = acc"
proof (induction listing)
  case Nil
  show ?case by (cases acc) simp
next
  case (Cons d ds)
  then show ?case by (cases acc) auto
qed

subsection \<open>C4: the statistics of a store without snapshots\<close>

text \<open>
  C4, as the code has it. When the listing of the store directory holds nothing but
  \<^verbatim>\<open>incomplete\<close> and \<^verbatim>\<open>current\<close>, \<^verbatim>\<open>backup_stats\<close> returns the count 0, the newest
  name \<^verbatim>\<open>''\<close> and the oldest name \<^verbatim>\<open>'Z'\<close>: the two names are the initial values of lines
  61 and 62, and only the newest one is the empty string.
\<close>

theorem backup_stats_empty_store:
  assumes "os_listdir f (resolve wd base_dir) = Inr listing"
    and "set listing \<subseteq> {''incomplete'', ''current''}"
  shows "backup_stats f wd base_dir = Inr (0, '''', ''Z'')"
  using assms by (simp add: backup_stats_def backup_stats_of_def backup_stats_loop_skip)

theorem backup_stats_empty_store_witness:
  "os_listdir [([''s'', ''incomplete''], Dir), ([''s''], Dir)] (resolve [] ''/s/'') = Inr [''incomplete'']
   \<and> backup_stats [([''s'', ''incomplete''], Dir), ([''s''], Dir)] [] ''/s/'' = Inr (0, '''', ''Z'')"
proof -
  have l: "os_listdir [([''s'', ''incomplete''], Dir), ([''s''], Dir)] (resolve [] ''/s/'') = Inr [''incomplete'']"
    by (simp add: os_listdir_def lookup_def entries_def resolve_def walk_def)
  have s: "set [''incomplete''] \<subseteq> {''incomplete'', ''current''}" by simp
  show ?thesis using l backup_stats_empty_store [OF l s] by simp
qed

text \<open>
  The claim as written fails: for a store that holds only the staging directory the
  oldest name is not the empty string.
\<close>

theorem backup_stats_empty_store_counterexample:
  "os_listdir [([''s'', ''incomplete''], Dir), ([''s''], Dir)] (resolve [] ''/s/'') = Inr [''incomplete'']
   \<and> backup_stats [([''s'', ''incomplete''], Dir), ([''s''], Dir)] [] ''/s/'' \<noteq> Inr (0, '''', '''')"
  by (simp add: os_listdir_def lookup_def entries_def resolve_def walk_def
      backup_stats_def backup_stats_of_def)

subsection \<open>C9: snapshot names and the order of time\<close>

text \<open>
  C9, as the code has it. For two times with a year of four digits, the first earlier
  than the second, the name of the first is lexicographically smaller than or equal to
  the name of the second, and it is smaller exactly when the two times differ in their
  date, hour, minute or second. The format ends at the second, while
  \<^verbatim>\<open>datetime.utcnow()\<close> counts microseconds.
\<close>

theorem strftime_monotone:
  assumes "valid_datetime t1" and "valid_datetime t2" and "earlier t1 t2"
  shows "strftime t1 \<le> strftime t2 \<and>
         (strftime t1 < strftime t2 \<longleftrightarrow> seconds_part t1 \<noteq> seconds_part t2)"
proof (cases "seconds_part t1 = seconds_part t2")
  case True
  then have "strftime t1 = strftime t2"
    using strftime_eq_iff [OF assms(1) assms(2)] by simp
  with True show ?thesis by simp
next
  case False
  with assms(3) have "earlier6 (seconds_part t1) (seconds_part t2)"
    by (simp add: earlier_def)
  then have "strftime t1 < strftime t2"
    using strftime_less_iff [OF assms(1) assms(2)] by simp
  with False show ?thesis by simp
qed

theorem strftime_monotone_witness:
  "valid_datetime \<lparr>year = 2020, month = 1, day = 2, hour = 3, minute = 4, second = 5, microsecond = 6\<rparr>
   \<and> valid_datetime \<lparr>year = 2020, month = 1, day = 2, hour = 3, minute = 5, second = 5, microsecond = 0\<rparr>
   \<and> earlier \<lparr>year = 2020, month = 1, day = 2, hour = 3, minute = 4, second = 5, microsecond = 6\<rparr>
              \<lparr>year = 2020, month = 1, day = 2, hour = 3, minute = 5, second = 5, microsecond = 0\<rparr>
   \<and> strftime \<lparr>year = 2020, month = 1, day = 2, hour = 3, minute = 4, second = 5, microsecond = 6\<rparr>
       < strftime \<lparr>year = 2020, month = 1, day = 2, hour = 3, minute = 5, second = 5, microsecond = 0\<rparr>"
proof -
  let ?a = "\<lparr>year = 2020, month = 1, day = 2, hour = 3, minute = 4, second = 5, microsecond = 6\<rparr>"
  let ?b = "\<lparr>year = 2020, month = 1, day = 2, hour = 3, minute = 5, second = 5, microsecond = 0\<rparr>"
  have va: "valid_datetime ?a" and vb: "valid_datetime ?b"
    by (simp_all add: valid_datetime_def)
  have e: "earlier ?a ?b" by (simp add: earlier_def seconds_part_def)
  have d: "seconds_part ?a \<noteq> seconds_part ?b" by (simp add: seconds_part_def)
  show ?thesis using va vb e d strftime_monotone [OF va vb e] by simp
qed

text \<open>
  The claim as written fails for two times within one second: the first is earlier,
  and the names are the same.
\<close>

theorem strftime_monotone_counterexample:
  "valid_datetime \<lparr>year = 2020, month = 1, day = 2, hour = 3, minute = 4, second = 5, microsecond = 6\<rparr>
   \<and> valid_datetime \<lparr>year = 2020, month = 1, day = 2, hour = 3, minute = 4, second = 5, microsecond = 7\<rparr>
   \<and> earlier \<lparr>year = 2020, month = 1, day = 2, hour = 3, minute = 4, second = 5, microsecond = 6\<rparr>
              \<lparr>year = 2020, month = 1, day = 2, hour = 3, minute = 4, second = 5, microsecond = 7\<rparr>
   \<and> \<not> strftime \<lparr>year = 2020, month = 1, day = 2, hour = 3, minute = 4, second = 5, microsecond = 6\<rparr>
       < strftime \<lparr>year = 2020, month = 1, day = 2, hour = 3, minute = 4, second = 5, microsecond = 7\<rparr>"
  by (simp add: valid_datetime_def earlier_def seconds_part_def strftime_def)

end
